theory Spec2Isabelle
  imports Main "HOL-Library.AList" "HOL-Library.Sublist"
begin

section \<open>JavaScript values and library functions used by cli.ts\<close>

text \<open>
  The command-line tool of \<^verbatim>\<open>js/packages/cli/src/cli.ts\<close> is embedded as pure functions.
  Exceptions are values of \<open>js_error\<close>; \<open>Rejected\<close> stands for an exception raised by an
  external call (file system, storage service, ledger). \<open>PatternOutsideModel\<close> is not a
  JavaScript error: it marks a regular expression that uses syntax the embedding of
  \<^verbatim>\<open>String.prototype.match\<close> below does not interpret.
\<close>

datatype js_error = TypeError | RangeError | Rejected | PatternOutsideModel

type_synonym path = string

text \<open>A \<^verbatim>\<open>Buffer\<close> is a list of bytes; an Isabelle \<open>char\<close> is one 8-bit byte.\<close>

type_synonym byte = char

text \<open>
  A value that is \<^verbatim>\<open>undefined\<close> or a string is a \<open>string option\<close>. It is truthy when it
  is a non-empty string.
\<close>

definition truthy :: "string option \<Rightarrow> bool" where
  "truthy v = (case v of None \<Rightarrow> False | Some s \<Rightarrow> s \<noteq> [])"

text \<open>\<^verbatim>\<open>s.replace(pat, rep)\<close> with a string pattern replaces the first occurrence only.\<close>

fun js_replace :: "string \<Rightarrow> string \<Rightarrow> string \<Rightarrow> string" where
  "js_replace [] pat rep = (if pat = [] then rep else [])"
| "js_replace (c # cs) pat rep =
     (if take (length pat) (c # cs) = pat then rep @ drop (length pat) (c # cs)
      else c # js_replace cs pat rep)"

text \<open>\<^verbatim>\<open>s.split(d)\<close> for a one-character separator; the result is never empty.\<close>

fun js_split :: "string \<Rightarrow> char \<Rightarrow> string list" where
  "js_split [] d = [[]]"
| "js_split (c # cs) d =
     (if c = d then [] # js_split cs d
      else (case js_split cs d of [] \<Rightarrow> [[c]] | w # ws \<Rightarrow> (c # w) # ws))"

text \<open>\<^verbatim>\<open>array.slice(a, b)\<close> for indices \<open>0 \<le> a\<close>, \<open>0 \<le> b\<close>: it never reads out of range.\<close>

definition slice :: "'a list \<Rightarrow> nat \<Rightarrow> nat \<Rightarrow> 'a list" where
  "slice xs a b = take (b - a) (drop a xs)"

text \<open>
  POSIX \<^verbatim>\<open>path.basename\<close>: the last portion of the path, trailing separators ignored.
  \<^verbatim>\<open>path.extname\<close>: from the last dot of that portion to its end; empty when there is
  no dot, when the only dot is the portion's first character, and for \<^verbatim>\<open>..\<close>.
\<close>

definition strip_trailing_slashes :: "string \<Rightarrow> string" where
  "strip_trailing_slashes p = rev (dropWhile (\<lambda>c. c = CHR ''/'') (rev p))"

definition basename :: "path \<Rightarrow> string" where
  "basename p = last (js_split (strip_trailing_slashes p) CHR ''/'')"

definition extname :: "path \<Rightarrow> string" where
  "extname p =
     (let base = basename p;
          after_dot = rev (takeWhile (\<lambda>c. c \<noteq> CHR ''.'') (rev base));
          startDot = length base - length after_dot - 1
      in if CHR ''.'' \<notin> set base then []
         else if startDot = 0 then []
         else if base = ''..'' then []
         else drop startDot base)"

subsection \<open>Objects: own properties in the order of \<^verbatim>\<open>Object.keys\<close>\<close>

text \<open>
  A plain object is the list of its own properties in the order \<^verbatim>\<open>Object.keys\<close> and
  \<^verbatim>\<open>JSON.stringify\<close> enumerate them: keys that are array indices (canonical decimal
  numerals below \<open>2^32 - 1\<close>) first, in ascending numeric order, then the other keys in
  the order of their creation. Assigning to an existing key keeps its place.
  Properties inherited from \<^verbatim>\<open>Object.prototype\<close> are not modelled.
\<close>

type_synonym 'v obj = "(string \<times> 'v) list"

definition is_digit :: "char \<Rightarrow> bool" where
  "is_digit c = (48 \<le> (of_char c :: nat) \<and> (of_char c :: nat) \<le> 57)"

definition dec_val :: "string \<Rightarrow> int" where
  "dec_val s = foldl (\<lambda>n c. 10 * n + ((of_char c :: int) - 48)) 0 s"

definition is_array_index :: "string \<Rightarrow> bool" where
  "is_array_index s =
     (s \<noteq> [] \<and> list_all is_digit s \<and> (if hd s = CHR ''0'' then s = ''0'' else True)
      \<and> dec_val s < 2 ^ 32 - 1)"

fun insert_index :: "string \<Rightarrow> 'v \<Rightarrow> 'v obj \<Rightarrow> 'v obj" where
  "insert_index k v [] = [(k, v)]"
| "insert_index k v ((k', v') # rest) =
     (if is_array_index k' \<and> dec_val k' < dec_val k then (k', v') # insert_index k v rest
      else (k, v) # (k', v') # rest)"

definition obj_set :: "'v obj \<Rightarrow> string \<Rightarrow> 'v \<Rightarrow> 'v obj" where
  "obj_set ob k v =
     (if k \<notin> fst ` set ob \<and> is_array_index k then insert_index k v ob
      else AList.update k v ob)"

definition obj_keys :: "'v obj \<Rightarrow> string list" where
  "obj_keys ob = map fst ob"

subsection \<open>\<^verbatim>\<open>String.prototype.match\<close> with a string argument\<close>

text \<open>
  \<^verbatim>\<open>s.match(p)\<close> with a string \<open>p\<close> evaluates \<^verbatim>\<open>new RegExp(p)\<close> and searches \<open>s\<close> for
  a match; with \<open>p\<close> undefined the pattern is empty and matches every string. The
  embedding interprets the patterns built from ordinary characters, which match
  themselves, and the dot, which matches any character but a line terminator. A
  pattern with another syntax character is outside the embedding (\<open>None\<close>).
\<close>

definition regex_syntax_char :: "char \<Rightarrow> bool" where
  "regex_syntax_char c = (c \<in> set ''^$*+?()[]{}|'' \<or> c = CHR 0x5C)"

definition line_terminator :: "char \<Rightarrow> bool" where
  "line_terminator c = (c = CHR 0x0A \<or> c = CHR 0x0D)"

fun match_here :: "string \<Rightarrow> string \<Rightarrow> bool" where
  "match_here [] s = True"
| "match_here (p # ps) [] = False"
| "match_here (p # ps) (c # cs) =
     ((if p = CHR ''.'' then \<not> line_terminator c else p = c) \<and> match_here ps cs)"

fun match_anywhere :: "string \<Rightarrow> string \<Rightarrow> bool" where
  "match_anywhere p [] = match_here p []"
| "match_anywhere p (c # cs) = (match_here p (c # cs) \<or> match_anywhere p cs)"

definition js_match :: "string \<Rightarrow> string option \<Rightarrow> bool option" where
  "js_match s regexp =
     (case regexp of
        None \<Rightarrow> Some True
      | Some p \<Rightarrow> if list_ex regex_syntax_char p then None else Some (match_anywhere p s))"

section \<open>Constants of cli.ts\<close>

definition MAINNET_CLUSTER_URL :: string where
  "MAINNET_CLUSTER_URL = ''https://api.mainnet-beta.solana.com/''"

definition DEVNET_CLUSTER_URL :: string where
  "DEVNET_CLUSTER_URL = ''https://api.devnet.solana.com/''"

definition TESTNET_CLUSTER_URL :: string where
  "TESTNET_CLUSTER_URL = ''https://api.testnet.solana.com/''"

definition extension :: string where
  "extension = ''.png''"

definition configArrayStart :: nat where
  "configArrayStart = 32 + 4 + 6 + 4 + 10 + 2 + 1 + 4 + 5 * 34 + 8 + 1 + 1 + 4"

definition configLineSize :: nat where
  "configLineSize = 4 + 32 + 4 + 200"

section \<open>\<^verbatim>\<open>chunks\<close> and the grouping of the batch phase\<close>

text \<open>
  \<^verbatim>\<open>chunks(array, size)\<close> maps over \<^verbatim>\<open>new Array(Math.ceil(array.length / size))\<close>; for
  \<open>size = 0\<close> the length is infinite or not a number and the constructor raises a
  \<^verbatim>\<open>RangeError\<close>.
\<close>

definition chunks :: "'a list \<Rightarrow> nat \<Rightarrow> js_error + 'a list list" where
  "chunks array sz =
     (if sz = 0 then Inl RangeError
      else Inr (map (\<lambda>index. slice array (index * sz) ((index + 1) * sz))
                  [0 ..< (length array + sz - 1) div sz]))"

text \<open>
  The loop \<^verbatim>\<open>for (offset = 0; offset < allIndexesInSlice.length; offset += 10)\<close> takes
  \<^verbatim>\<open>indexes = allIndexesInSlice.slice(offset, offset + 10)\<close> at every turn;
  \<open>micro_batches\<close> lists these index arrays in the order of the loop.
\<close>

function micro_batches :: "nat \<Rightarrow> 'a list \<Rightarrow> 'a list list" where
  "micro_batches offset allIndexesInSlice =
     (if offset < length allIndexesInSlice
      then slice allIndexesInSlice offset (offset + 10)
             # micro_batches (offset + 10) allIndexesInSlice
      else [])"
  by pat_completeness auto
termination
  by (relation "measure (\<lambda>(offset, xs). length xs - offset)") auto

declare micro_batches.simps [simp del]

section \<open>The environment tag of the upload command\<close>

text \<open>
  The \<^verbatim>\<open>switch (url)\<close> has no \<^verbatim>\<open>break\<close>: once a case label has matched, every later
  assignment runs too. \<open>entered\<close> records that a label has matched.
\<close>

definition env_of_url :: "string \<Rightarrow> string option" where
  "env_of_url url =
     (let env = None;
          entered = (url = MAINNET_CLUSTER_URL);
          env = (if entered then Some ''mainnet'' else env);
          entered = (entered \<or> url = TESTNET_CLUSTER_URL);
          env = (if entered then Some ''testnet'' else env);
          entered = (entered \<or> url = DEVNET_CLUSTER_URL);
          env = (if entered then Some ''devnet'' else env)
      in env)"

section \<open>The cache document\<close>

text \<open>
  One record of \<^verbatim>\<open>cacheContent.items\<close>: \<^verbatim>\<open>{ link, name, onChain }\<close>. \<open>link\<close> and \<open>name\<close>
  may be undefined (\<^verbatim>\<open>JSON.stringify\<close> then leaves the member out).
\<close>

record cache_item =
  link :: "string option"
  name :: "string option"
  onChain :: bool

record program_state =
  uuid :: "string option"
  config :: "string option"

text \<open>
  \<open>cache_doc\<close> is \<^verbatim>\<open>cacheContent\<close> once the upload command has put in the defaults for
  \<^verbatim>\<open>program\<close> and \<^verbatim>\<open>items\<close>; \<open>json_doc\<close> is what \<^verbatim>\<open>JSON.parse\<close> of the cache file may
  return, where either member can be missing.
\<close>

record cache_doc =
  program :: program_state
  items :: "cache_item obj"

record json_doc =
  json_program :: "program_state option"
  json_items :: "cache_item obj option"

definition to_json :: "cache_doc \<Rightarrow> json_doc" where
  "to_json d = \<lparr>json_program = Some (program d), json_items = Some (items d)\<rparr>"

text \<open>
  Lines 275-290: \<open>None\<close> is a cache file that does not exist. The result is
  \<^verbatim>\<open>cacheContent\<close> and \<^verbatim>\<open>existingInCache\<close>.
\<close>

definition load_cache :: "json_doc option \<Rightarrow> cache_doc \<times> string list" where
  "load_cache savedContent =
     (let prog = (case savedContent of None \<Rightarrow> None | Some j \<Rightarrow> json_program j);
          its = (case savedContent of None \<Rightarrow> None | Some j \<Rightarrow> json_items j)
      in (\<lparr>program = (case prog of None \<Rightarrow> \<lparr>uuid = None, config = None\<rparr> | Some p \<Rightarrow> p),
           items = (case its of None \<Rightarrow> [] | Some ob \<Rightarrow> ob)\<rparr>,
          (case its of None \<Rightarrow> [] | Some ob \<Rightarrow> obj_keys ob)))"

section \<open>The ordered item set (lines 292-308)\<close>

text \<open>
  \<^verbatim>\<open>seen\<close> only ever maps a key to \<^verbatim>\<open>true\<close>, so it is the set of its own keys. The key of
  a listed file is \<^verbatim>\<open>f.replace(extension, '').split('/').pop()\<close>.
\<close>

definition dedup_key :: "path \<Rightarrow> string" where
  "dedup_key f = last (js_split (js_replace f extension []) CHR ''/'')"

definition keep_file :: "string set \<times> path list \<Rightarrow> path \<Rightarrow> string set \<times> path list" where
  "keep_file acc f =
     (case acc of (seen, newFiles) \<Rightarrow>
        if dedup_key f \<notin> seen then (insert (dedup_key f) seen, newFiles @ [f])
        else (seen, newFiles))"

definition keep_cached :: "string set \<times> path list \<Rightarrow> string \<Rightarrow> string set \<times> path list" where
  "keep_cached acc f =
     (case acc of (seen, newFiles) \<Rightarrow>
        if f \<notin> seen then (insert f seen, newFiles @ [f @ ''.png''])
        else (seen, newFiles))"

definition newFiles_of :: "path list \<Rightarrow> string list \<Rightarrow> path list" where
  "newFiles_of files existingInCache =
     snd (foldl keep_cached (foldl keep_file ({}, []) files) existingInCache)"

definition images_of :: "path list \<Rightarrow> string list \<Rightarrow> path list" where
  "images_of files existingInCache =
     filter (\<lambda>val. extname val = extension) (newFiles_of files existingInCache)"



section \<open>The outside world and the state of a run\<close>

record manifest =
  manifest_name :: "string option"
  symbol :: "string option"
  seller_fee_basis_points :: "int option"
  creators :: "(string \<times> int) list option"

text \<open>
  The multipart form of lines 411-415: the fields \<^verbatim>\<open>transaction\<close> and \<^verbatim>\<open>env\<close>, and the
  two \<^verbatim>\<open>file[]\<close> parts, each under the file name it is appended with.
\<close>

datatype file_part = ImageStream path | ManifestBuffer manifest

record upload_request =
  req_transaction :: string
  req_env :: "string option"
  req_files :: "(string \<times> file_part) list"

record message =
  filename :: string
  transactionId :: "string option"

text \<open>
  The parsed response of the storage service, with its \<^verbatim>\<open>messages\<close> if it has any; or an
  exception in the \<^verbatim>\<open>try\<close> block of lines 416-443 before the record is written (the
  request fails, the body is not JSON, the response is not an object of this shape).
\<close>

datatype upload_response = FetchFailed | Json "message list option"

type_synonym config_line = "string option \<times> string option"

text \<open>
  What the run cannot compute by itself is a field of \<open>world\<close>; \<open>None\<close> and \<open>False\<close> stand
  for a call that throws.
  \<^item> \<open>readImage\<close>: \<^verbatim>\<open>fs.readFileSync(image)\<close> returns.
  \<^item> \<open>readManifest manifestPath imageName\<close>: the manifest file read, the image name
    rewritten to \<^verbatim>\<open>image.png\<close>, and the text parsed.
  \<^item> \<open>createConfig SIZE manifest\<close>: the \<^verbatim>\<open>uuid\<close> and the address of the new config
    account.
  \<^item> \<open>sendPayment index\<close>: the \<^verbatim>\<open>txid\<close> of the payment made while the item \<open>index\<close> is
    processed.
  \<^item> \<open>uploadFile3\<close>: the \<^verbatim>\<open>POST\<close> to the storage service.
  \<^item> \<open>addConfigLines ind lines\<close>: the ledger call of the batch phase is confirmed.
  \<^item> \<open>getAccountData address\<close>: the bytes of the ledger account read by \<^verbatim>\<open>verify\<close>.
  Reading the wallet key, fetching the program interface and writing the cache file are
  taken to succeed.
\<close>

record world =
  readImage :: "path \<Rightarrow> bool"
  readManifest :: "path \<Rightarrow> string \<Rightarrow> manifest option"
  createConfig :: "nat \<Rightarrow> manifest \<Rightarrow> (string \<times> string) option"
  sendPayment :: "string \<Rightarrow> string option"
  uploadFile3 :: "upload_request \<Rightarrow> upload_response"
  addConfigLines :: "string option \<Rightarrow> config_line list \<Rightarrow> bool"
  getAccountData :: "string option \<Rightarrow> byte list option"

text \<open>The external calls a run makes and the errors it prints, in order.\<close>

datatype event =
    CreateConfig nat
  | Payment string
  | StorageUpload string upload_request
  | AddConfigLines "string option" "config_line list"
  | LoggedConfigError
  | LoggedUploadError string
  | LoggedBatchError js_error

text \<open>
  \<open>cacheContent\<close> is the document in memory, \<open>cacheFile\<close> the content of the cache file
  (\<open>None\<close>: no file).
\<close>

record state =
  cacheContent :: cache_doc
  cacheFile :: "json_doc option"
  events :: "event list"

definition writeCache :: "state \<Rightarrow> state" where
  "writeCache st = st\<lparr>cacheFile := Some (to_json (cacheContent st))\<rparr>"

definition emit :: "event list \<Rightarrow> state \<Rightarrow> state" where
  "emit es st = st\<lparr>events := events st @ es\<rparr>"

text \<open>A run of the item loop ends normally or with an exception nothing catches.\<close>

datatype outcome = Completed state | Aborted state

fun final_state :: "outcome \<Rightarrow> state" where
  "final_state (Completed st) = st"
| "final_state (Aborted st) = st"

text \<open>The storage uploads and the fee payments among the events of a run.\<close>

definition uploads_of :: "event list \<Rightarrow> (string \<times> upload_request) list" where
  "uploads_of es = [(index, r). StorageUpload index r \<leftarrow> es]"

definition payments_of :: "event list \<Rightarrow> string list" where
  "payments_of es = [index. Payment index \<leftarrow> es]"

section \<open>The item loop of the upload command (lines 337-449)\<close>

text \<open>Lines 359-389: the one-time creation of the config account; a failure is logged.\<close>

definition initialize_config :: "world \<Rightarrow> nat \<Rightarrow> manifest \<Rightarrow> state \<Rightarrow> state" where
  "initialize_config w SIZE mf st =
     (case createConfig w SIZE mf of
        None \<Rightarrow> emit [CreateConfig SIZE, LoggedConfigError] st
      | Some (res_uuid, res_config) \<Rightarrow>
          writeCache (emit [CreateConfig SIZE]
            (st\<lparr>cacheContent := (cacheContent st)
                  \<lparr>program := \<lparr>uuid = Some res_uuid, config = Some res_config\<rparr>\<rparr>\<rparr>)))"

text \<open>Lines 427-433: the link of the uploaded item, from the parsed response.\<close>

definition find_metadataFile :: "message list option \<Rightarrow> message option" where
  "find_metadataFile messages =
     (case messages of None \<Rightarrow> None
      | Some ms \<Rightarrow> find (\<lambda>m. filename m = ''manifest.json'') ms)"

definition link_of_response :: "string option \<Rightarrow> message list option \<Rightarrow> string option" where
  "link_of_response link0 messages =
     (case find_metadataFile messages of
        None \<Rightarrow> link0
      | Some metadataFile \<Rightarrow>
          (case transactionId metadataFile of
             None \<Rightarrow> link0
           | Some t \<Rightarrow> if t \<noteq> [] then Some (''https://arweave.net/'' @ t) else link0))"

text \<open>Lines 391-447: payment, upload, and the record written to the cache.\<close>

definition pay_and_upload ::
    "world \<Rightarrow> string option \<Rightarrow> path \<Rightarrow> string \<Rightarrow> manifest \<Rightarrow> string option \<Rightarrow> state \<Rightarrow> outcome" where
  "pay_and_upload w env imageFile index mf link0 st =
     (case sendPayment w index of
        None \<Rightarrow> Aborted (emit [Payment index] st)
      | Some txid \<Rightarrow>
          (let data = \<lparr>req_transaction = txid, req_env = env,
                       req_files = [(''image.png'', ImageStream imageFile),
                                    (''metadata.json'', ManifestBuffer mf)]\<rparr>;
               st1 = emit [Payment index, StorageUpload index data] st
           in case uploadFile3 w data of
                FetchFailed \<Rightarrow> Completed (emit [LoggedUploadError index] st1)
              | Json messages \<Rightarrow>
                  Completed (writeCache
                    (st1\<lparr>cacheContent := (cacheContent st1)
                          \<lparr>items := obj_set (items (cacheContent st1)) index
                             \<lparr>link = link_of_response link0 messages,
                              name = manifest_name mf, onChain = False\<rparr>\<rparr>\<rparr>))))"

text \<open>One turn of the loop, for the image at position \<open>i\<close>.\<close>

definition upload_item ::
    "world \<Rightarrow> string option \<Rightarrow> nat \<Rightarrow> nat \<Rightarrow> path \<Rightarrow> state \<Rightarrow> outcome" where
  "upload_item w env SIZE i imageFile st =
     (let imageName = basename imageFile;
          index = js_replace imageName extension [];
          link0 = (case map_of (items (cacheContent st)) index of
                     None \<Rightarrow> None | Some it \<Rightarrow> link it)
      in if truthy link0 \<and> truthy (uuid (program (cacheContent st))) then Completed st
         else if \<not> readImage w imageFile then Aborted st
         else (case readManifest w (js_replace imageFile extension ''.json'') imageName of
                 None \<Rightarrow> Aborted st
               | Some mf \<Rightarrow>
                   (let st1 = (if i = 0 \<and> \<not> truthy (uuid (program (cacheContent st)))
                               then initialize_config w SIZE mf st else st)
                    in if truthy link0 then Completed st1
                       else pay_and_upload w env imageFile index mf link0 st1)))"

fun upload_loop ::
    "world \<Rightarrow> string option \<Rightarrow> nat \<Rightarrow> nat \<Rightarrow> path list \<Rightarrow> state \<Rightarrow> outcome" where
  "upload_loop w env SIZE i [] st = Completed st"
| "upload_loop w env SIZE i (imageFile # rest) st =
     (case upload_item w env SIZE i imageFile st of
        Aborted st' \<Rightarrow> Aborted st'
      | Completed st' \<Rightarrow> upload_loop w env SIZE (Suc i) rest st')"

text \<open>
  The item index of an image file (line 340) and the link the cache has for an index
  (line 346); \<open>upload_item\<close> computes both in place.
\<close>

definition index_of :: "path \<Rightarrow> string" where
  "index_of imageFile = js_replace (basename imageFile) extension []"

definition link_in :: "cache_doc \<Rightarrow> string \<Rightarrow> string option" where
  "link_in d index = (case map_of (items d) index of None \<Rightarrow> None | Some it \<Rightarrow> link it)"

section \<open>The batch phase of the upload command (lines 451-511)\<close>

text \<open>
  \<^verbatim>\<open>keys[i]\<close> is undefined out of range; used as a property name, undefined reads as
  the string \<^verbatim>\<open>undefined\<close>.
\<close>

definition key_at :: "string list \<Rightarrow> nat \<Rightarrow> string option" where
  "key_at keys i = (if i < length keys then Some (keys ! i) else None)"

definition key_name :: "string list \<Rightarrow> nat \<Rightarrow> string" where
  "key_name keys i = (case key_at keys i of None \<Rightarrow> ''undefined'' | Some k \<Rightarrow> k)"

definition item_at :: "cache_doc \<Rightarrow> string list \<Rightarrow> nat \<Rightarrow> cache_item option" where
  "item_at d keys i = map_of (items d) (key_name keys i)"

text \<open>
  What one micro-batch does before any network call (lines 461-480): nothing when all
  its indices are on chain, otherwise the request \<^verbatim>\<open>addConfigLines(ind, lines)\<close>; reading
  \<^verbatim>\<open>link\<close> of a record that does not exist raises a \<^verbatim>\<open>TypeError\<close>.
\<close>

datatype batch_plan = Skip | Throw js_error | Submit "string option" "config_line list"

definition plan_batch :: "cache_doc \<Rightarrow> string list \<Rightarrow> nat list \<Rightarrow> batch_plan" where
  "plan_batch d keys indexes =
     (let onChainIndexes =
            filter (\<lambda>i. case item_at d keys i of None \<Rightarrow> False | Some it \<Rightarrow> onChain it) indexes;
          ind = (case indexes of [] \<Rightarrow> None | i0 # _ \<Rightarrow> key_at keys i0)
      in if length onChainIndexes = length indexes then Skip
         else (case those (map (\<lambda>i. map_option (\<lambda>it. (link it, name it)) (item_at d keys i))
                             indexes) of
                 None \<Rightarrow> Throw TypeError
               | Some lines \<Rightarrow> Submit ind lines))"

text \<open>Lines 489-494: \<^verbatim>\<open>{ ...cacheContent.items[keys[i]], onChain: true }\<close>.\<close>

definition mark_onChain :: "string list \<Rightarrow> cache_doc \<Rightarrow> nat \<Rightarrow> cache_doc" where
  "mark_onChain keys d i =
     d\<lparr>items := obj_set (items d) (key_name keys i)
          (case item_at d keys i of
             None \<Rightarrow> \<lparr>link = None, name = None, onChain = True\<rparr>
           | Some it \<Rightarrow> it\<lparr>onChain := True\<rparr>)\<rparr>"

text \<open>
  One turn of the loop over the micro-batches of a macro-group. The second component is
  the exception that leaves the loop, if any.
\<close>

definition micro_batch ::
    "world \<Rightarrow> string list \<Rightarrow> nat list \<Rightarrow> state \<Rightarrow> state \<times> js_error option" where
  "micro_batch w keys indexes st =
     (case plan_batch (cacheContent st) keys indexes of
        Skip \<Rightarrow> (st, None)
      | Throw e \<Rightarrow> (st, Some e)
      | Submit ind lines \<Rightarrow>
          (let st1 = emit [AddConfigLines ind lines] st
           in if addConfigLines w ind lines
              then (writeCache
                      (st1\<lparr>cacheContent := foldl (mark_onChain keys) (cacheContent st1) indexes\<rparr>),
                    None)
              else (st1, Some Rejected)))"

text \<open>
  The body of the asynchronous function of one macro-group has no \<^verbatim>\<open>try\<close>: the first
  exception ends its loop.
\<close>

fun macro_group_loop ::
    "world \<Rightarrow> string list \<Rightarrow> nat list list \<Rightarrow> state \<Rightarrow> state \<times> js_error option" where
  "macro_group_loop w keys [] st = (st, None)"
| "macro_group_loop w keys (indexes # rest) st =
     (case micro_batch w keys indexes st of
        (st', Some e) \<Rightarrow> (st', Some e)
      | (st', None) \<Rightarrow> macro_group_loop w keys rest st')"

definition macro_group ::
    "world \<Rightarrow> string list \<Rightarrow> nat list \<Rightarrow> state \<Rightarrow> state \<times> js_error option" where
  "macro_group w keys allIndexesInSlice st =
     macro_group_loop w keys (micro_batches 0 allIndexesInSlice) st"

text \<open>
  \<^verbatim>\<open>Promise.all\<close> starts the function of every macro-group and cancels none of them when
  one rejects. A macro-group reads and writes only the records of its own indices, and
  every write of the cache file writes the whole document in memory, so the groups are
  run here one after the other; the rejection reported is the one of the first group
  that has one.
\<close>

fun all_groups ::
    "world \<Rightarrow> string list \<Rightarrow> nat list list \<Rightarrow> state \<Rightarrow> state \<times> js_error option" where
  "all_groups w keys [] st = (st, None)"
| "all_groups w keys (g # gs) st =
     (case macro_group w keys g st of
        (st1, r1) \<Rightarrow>
          (case all_groups w keys gs st1 of
             (st2, r2) \<Rightarrow> (st2, (case r1 of None \<Rightarrow> r2 | Some e \<Rightarrow> Some e))))"

text \<open>The \<^verbatim>\<open>try\<close>, \<^verbatim>\<open>catch\<close> and \<^verbatim>\<open>finally\<close> of lines 452-511.\<close>

definition batch_phase :: "world \<Rightarrow> state \<Rightarrow> state" where
  "batch_phase w st =
     (let keys = obj_keys (items (cacheContent st))
      in writeCache
           (case chunks [0 ..< length keys] 1000 of
              Inl e \<Rightarrow> emit [LoggedBatchError e] st
            | Inr groups \<Rightarrow>
                (case all_groups w keys groups st of
                   (st', None) \<Rightarrow> st'
                 | (st', Some e) \<Rightarrow> emit [LoggedBatchError e] st')))"

text \<open>The item with key \<open>k\<close> is marked as registered on the ledger.\<close>

definition registered :: "cache_doc \<Rightarrow> string \<Rightarrow> bool" where
  "registered d k = (case map_of (items d) k of None \<Rightarrow> False | Some it \<Rightarrow> onChain it)"

section \<open>The upload command\<close>

definition upload_action :: "world \<Rightarrow> string \<Rightarrow> path list \<Rightarrow> json_doc option \<Rightarrow> outcome" where
  "upload_action w url files savedContent =
     (let env = env_of_url url;
          images = images_of files (snd (load_cache savedContent));
          SIZE = length images;
          st0 = \<lparr>cacheContent = fst (load_cache savedContent), cacheFile = savedContent,
                 events = []\<rparr>
      in case upload_loop w env SIZE 0 images st0 of
           Aborted st \<Rightarrow> Aborted st
         | Completed st \<Rightarrow> Completed (batch_phase w st))"

section \<open>Predicates on cache documents\<close>

text \<open>
  \<open>items_ok\<close>: every record that is marked as registered has a link that is present and
  not empty. \<open>all_linked\<close>: every record has such a link. \<open>complete files d\<close>: nothing is
  left to do for the listing \<open>files\<close>: every image of the item set has a link and passes
  the test of line 347 (so the config account exists as soon as there is an image), and
  every record is registered.
\<close>

definition items_ok :: "cache_item obj \<Rightarrow> bool" where
  "items_ok its = list_all (\<lambda>(k, it). if onChain it then truthy (link it) else True) its"

definition all_linked :: "cache_item obj \<Rightarrow> bool" where
  "all_linked its = list_all (\<lambda>(k, it). truthy (link it)) its"


section \<open>The verify command (lines 697-748)\<close>

text \<open>
  Modelled from the spec: \<^verbatim>\<open>fromUTF8Array\<close> is imported from \<^verbatim>\<open>./helper\<close>, which is not
  among the source files. The specification has the name and address fields decoded
  "as fixed-width UTF-8 byte buffers, trimmed of trailing padding". Padding is taken to
  be zero bytes; a byte below \<open>0x80\<close> is the character with that code. The functions of
  the verify command take the decoder as a parameter, so what is proved of them holds
  for any decoder.
\<close>

definition fromUTF8Array :: "byte list \<Rightarrow> string" where
  "fromUTF8Array bytes = rev (dropWhile (\<lambda>b. b = CHR 0x00) (rev bytes))"

text \<open>Lines 719-742 for the record at position \<open>i\<close>; \<open>||\<close> evaluates its right side only
  when the name matched.\<close>

definition verify_item ::
    "(byte list \<Rightarrow> string) \<Rightarrow> byte list \<Rightarrow> nat \<Rightarrow> cache_item \<Rightarrow> js_error + cache_item" where
  "verify_item decode data i cacheItem =
     (let thisSlice = slice data (configArrayStart + 4 + configLineSize * i)
                        (configArrayStart + 4 + configLineSize * (i + 1));
          name' = decode (slice thisSlice 4 36);
          uri = decode (slice thisSlice 40 240)
      in case js_match name' (name cacheItem) of
           None \<Rightarrow> Inl PatternOutsideModel
         | Some False \<Rightarrow> Inr (cacheItem\<lparr>onChain := False\<rparr>)
         | Some True \<Rightarrow>
             (case js_match uri (link cacheItem) of
                None \<Rightarrow> Inl PatternOutsideModel
              | Some False \<Rightarrow> Inr (cacheItem\<lparr>onChain := False\<rparr>)
              | Some True \<Rightarrow> Inr cacheItem))"

text \<open>
  The loop over \<^verbatim>\<open>Object.keys(cachedContent.items)\<close>: the keys of an object are distinct,
  so \<^verbatim>\<open>cachedContent.items[keys[i]]\<close> is the record at position \<open>i\<close>.
\<close>

fun verify_loop ::
    "(byte list \<Rightarrow> string) \<Rightarrow> byte list \<Rightarrow> nat \<Rightarrow> cache_item obj \<Rightarrow> js_error + cache_item obj" where
  "verify_loop decode data i [] = Inr []"
| "verify_loop decode data i ((key, cacheItem) # rest) =
     (case verify_item decode data i cacheItem of
        Inl e \<Rightarrow> Inl e
      | Inr cacheItem' \<Rightarrow>
          (case verify_loop decode data (Suc i) rest of
             Inl e \<Rightarrow> Inl e
           | Inr rest' \<Rightarrow> Inr ((key, cacheItem') # rest')))"

text \<open>
  The command: \<open>Inr\<close> is the document written to the cache file at line 744, \<open>Inl\<close> an
  exception, after which nothing is written. A missing cache file leaves
  \<^verbatim>\<open>cachedContent\<close> undefined, and line 710 reads \<^verbatim>\<open>cachedContent.program\<close>.
\<close>

definition verify_action ::
    "world \<Rightarrow> (byte list \<Rightarrow> string) \<Rightarrow> json_doc option \<Rightarrow> js_error + json_doc" where
  "verify_action w decode cacheFileContent =
     (case cacheFileContent of
        None \<Rightarrow> Inl TypeError
      | Some cachedContent \<Rightarrow>
          (case json_program cachedContent of
             None \<Rightarrow> Inl TypeError
           | Some prog \<Rightarrow>
               (case getAccountData w (config prog) of
                  None \<Rightarrow> Inl Rejected
                | Some data \<Rightarrow>
                    (case json_items cachedContent of
                       None \<Rightarrow> Inl TypeError
                     | Some its \<Rightarrow>
                         (case verify_loop decode data 0 its of
                            Inl e \<Rightarrow> Inl e
                          | Inr its' \<Rightarrow> Inr (cachedContent\<lparr>json_items := Some its'\<rparr>))))))"

text \<open>
  The record of index \<open>i\<close> in the ledger account, as the specification locates it: at
  byte offset \<open>configArrayStart + 4 + i * configLineSize\<close>, the name in its bytes
  \<open>[4, 36)\<close>, the address in its bytes \<open>[40, 240)\<close>. \<open>reconciled\<close> is the cache record after
  the comparison: unchanged when both fields match, with \<open>onChain\<close> cleared otherwise.
  \<open>pattern_modelled\<close> holds of the cache values whose regular expression the embedding
  of \<^verbatim>\<open>match\<close> interprets.
\<close>

definition pattern_modelled :: "string option \<Rightarrow> bool" where
  "pattern_modelled regexp =
     (case regexp of None \<Rightarrow> True | Some p \<Rightarrow> \<not> list_ex regex_syntax_char p)"

definition ledger_record :: "byte list \<Rightarrow> nat \<Rightarrow> byte list" where
  "ledger_record data i = take configLineSize (drop (configArrayStart + 4 + i * configLineSize) data)"

definition ledger_name :: "(byte list \<Rightarrow> string) \<Rightarrow> byte list \<Rightarrow> nat \<Rightarrow> string" where
  "ledger_name decode data i = decode (take 32 (drop 4 (ledger_record data i)))"

definition ledger_uri :: "(byte list \<Rightarrow> string) \<Rightarrow> byte list \<Rightarrow> nat \<Rightarrow> string" where
  "ledger_uri decode data i = decode (take 200 (drop 40 (ledger_record data i)))"

definition reconciled ::
    "(byte list \<Rightarrow> string) \<Rightarrow> byte list \<Rightarrow> nat \<Rightarrow> cache_item \<Rightarrow> cache_item" where
  "reconciled decode data i cacheItem =
     (if js_match (ledger_name decode data i) (name cacheItem) = Some True
         \<and> js_match (ledger_uri decode data i) (link cacheItem) = Some True
      then cacheItem else cacheItem\<lparr>onChain := False\<rparr>)"

section \<open>Example data\<close>

text \<open>Decimal numerals, for the keys of example caches.\<close>

fun decimal :: "nat \<Rightarrow> string" where
  "decimal n =
     (if n < 10 then [char_of (48 + n)]
      else decimal (n div 10) @ [char_of (48 + n mod 10)])"

declare decimal.simps [simp del]

text \<open>Caches: records that are uploaded and not registered, or registered.\<close>

definition unregistered_item :: "nat \<Rightarrow> string \<times> cache_item" where
  "unregistered_item i =
     (decimal i, \<lparr>link = Some (''https://arweave.net/'' @ decimal i),
                  name = Some (''Item #'' @ decimal i), onChain = False\<rparr>)"



definition example_cache_11 :: cache_doc where
  "example_cache_11 =
     \<lparr>program = \<lparr>uuid = Some ''AbCdEf'', config = Some ''AbCdEfGh''\<rparr>,
      items = map unregistered_item [0 ..< 11]\<rparr>"

definition example_cache_3 :: cache_doc where
  "example_cache_3 =
     \<lparr>program = \<lparr>uuid = Some ''AbCdEf'', config = Some ''AbCdEfGh''\<rparr>,
      items = [(''0'', \<lparr>link = Some ''https://arweave.net/a'', name = Some ''Item #0'',
                        onChain = True\<rparr>),
               (''1'', \<lparr>link = Some ''https://arweave.net/b'', name = Some ''Item #1'',
                        onChain = False\<rparr>),
               (''2'', \<lparr>link = Some ''https://arweave.net/c'', name = Some ''Item #2'',
                        onChain = False\<rparr>)]\<rparr>"


definition dotted_cache :: json_doc where
  "dotted_cache =
     \<lparr>json_program = Some \<lparr>uuid = Some ''AbCdEf'', config = Some ''AbCdEfGh''\<rparr>,
      json_items = Some [(''0'', \<lparr>link = Some ''https://arweave.net/a'',
                                  name = Some ''Item #0'', onChain = True\<rparr>)]\<rparr>"

text \<open>States: a cache that was just written, and the start of a run with no cache file.\<close>

definition state_of :: "cache_doc \<Rightarrow> state" where
  "state_of d = \<lparr>cacheContent = d, cacheFile = Some (to_json d), events = []\<rparr>"

definition empty_state :: state where
  "empty_state = \<lparr>cacheContent = fst (load_cache None), cacheFile = None, events = []\<rparr>"

text \<open>
  Worlds. In \<open>all_succeed\<close> every call succeeds, and the storage service answers with a
  record for each uploaded file and one for \<^verbatim>\<open>manifest.json\<close>. In \<open>storage_echoes_files\<close>
  it answers with exactly one record per uploaded file, under the name the file was
  uploaded with. In \<open>first_batch_fails\<close> the ledger rejects the batch that starts at the
  key \<open>0\<close> and confirms every other. In \<open>ledger_with data\<close> the ledger account holds
  \<open>data\<close>.
\<close>

definition all_succeed :: world where
  "all_succeed =
     \<lparr>readImage = (\<lambda>p. True),
      readManifest = (\<lambda>p n. Some \<lparr>manifest_name = Some ''Item'', symbol = None,
                                   seller_fee_basis_points = None, creators = None\<rparr>),
      createConfig = (\<lambda>n m. Some (''AbCdEf'', ''AbCdEfGh'')),
      sendPayment = (\<lambda>index. Some ''tx''),
      uploadFile3 =
        (\<lambda>r. Json (Some [\<lparr>filename = ''image.png'', transactionId = Some ''IMG''\<rparr>,
                          \<lparr>filename = ''metadata.json'', transactionId = Some ''META''\<rparr>,
                          \<lparr>filename = ''manifest.json'', transactionId = Some ''MAN''\<rparr>])),
      addConfigLines = (\<lambda>ind lines. True),
      getAccountData = (\<lambda>a. None)\<rparr>"

definition storage_echoes_files :: world where
  "storage_echoes_files =
     all_succeed\<lparr>uploadFile3 :=
       (\<lambda>r. Json (Some (map (\<lambda>(fname, part).
                 \<lparr>filename = fname, transactionId = Some (''tx-of-'' @ fname)\<rparr>) (req_files r))))\<rparr>"

definition first_batch_fails :: world where
  "first_batch_fails = all_succeed\<lparr>addConfigLines := (\<lambda>ind lines. ind \<noteq> Some ''0'')\<rparr>"

definition ledger_with :: "byte list \<Rightarrow> world" where
  "ledger_with data = all_succeed\<lparr>getAccountData := (\<lambda>address. Some data)\<rparr>"


text \<open>
  Ledger account data holding the given \<open>(name, uri)\<close> lines: the header, the number of
  lines, and for each line the two fields, each as its length and its zero-padded buffer.
\<close>

definition u32le :: "nat \<Rightarrow> byte list" where
  "u32le n = [char_of n, char_of (n div 256), char_of (n div 65536), char_of (n div 16777216)]"

definition padded :: "nat \<Rightarrow> string \<Rightarrow> byte list" where
  "padded n s = s @ replicate (n - length s) (CHR 0x00)"

definition config_line_bytes :: "string \<Rightarrow> string \<Rightarrow> byte list" where
  "config_line_bytes nm uri =
     u32le (length nm) @ padded 32 nm @ u32le (length uri) @ padded 200 uri"

definition ledger_bytes :: "(string \<times> string) list \<Rightarrow> byte list" where
  "ledger_bytes lines =
     replicate configArrayStart (CHR 0x00) @ u32le (length lines)
       @ concat (map (\<lambda>(nm, uri). config_line_bytes nm uri) lines)"


definition dotted_ledger :: "byte list" where
  "dotted_ledger = ledger_bytes [(''Item #0'', ''https://arweave-net/a'')]"

section \<open>Grouping of the batch phase\<close>








section \<open>Objects and lists\<close>

lemma map_of_insert_index:
  "k \<notin> fst ` set ob \<Longrightarrow> map_of (insert_index k v ob) = (map_of ob)(k \<mapsto> v)"
  by (induction ob) (auto simp: fun_eq_iff)

lemma map_of_obj_set: "map_of (obj_set ob k v) = (map_of ob)(k \<mapsto> v)"
  by (simp add: obj_set_def map_of_insert_index update_conv')

lemma set_insert_index: "set (insert_index k v ob) = insert (k, v) (set ob)"
  by (induction ob) (auto split: if_splits)

lemma set_alist_update: "set (AList.update k v al) \<subseteq> insert (k, v) (set al)"
  by (induction al) auto

lemma set_obj_set: "set (obj_set ob k v) \<subseteq> insert (k, v) (set ob)"
  using set_alist_update[of k v ob] by (auto simp: obj_set_def set_insert_index)



lemma those_map_SomeD:
  "those (map f xs) = Some ys \<Longrightarrow> \<forall>x\<in>set xs. f x \<noteq> None"
  by (induction xs arbitrary: ys) (auto split: option.splits)











section \<open>Micro-batches\<close>

lemma item_at_mark_onChain:
  "item_at d keys j \<noteq> None \<Longrightarrow> item_at (mark_onChain keys d i) keys j \<noteq> None"
  by (simp add: item_at_def mark_onChain_def map_of_obj_set)



lemma plan_batch_SubmitD:
  "plan_batch d keys indexes = Submit ind lines \<Longrightarrow> \<forall>i\<in>set indexes. item_at d keys i \<noteq> None"
proof -
  assume "plan_batch d keys indexes = Submit ind lines"
  then have "those (map (\<lambda>i. map_option (\<lambda>it. (link it, name it)) (item_at d keys i)) indexes)
               = Some lines"
    by (auto simp: plan_batch_def Let_def split: if_splits option.splits)
  from those_map_SomeD[OF this] show ?thesis by auto
qed


lemma macro_group_loop_append:
  "macro_group_loop w keys (pre @ rest) st =
     (case macro_group_loop w keys pre st of
        (st1, None) \<Rightarrow> macro_group_loop w keys rest st1
      | (st1, Some e) \<Rightarrow> (st1, Some e))"
  by (induction pre arbitrary: st) (auto split: prod.splits option.splits)

lemma all_groups_append:
  "all_groups w keys (xs @ ys) st =
     (case all_groups w keys xs st of
        (st1, r1) \<Rightarrow>
          (case all_groups w keys ys st1 of
             (st2, r2) \<Rightarrow> (st2, (case r1 of None \<Rightarrow> r2 | Some e \<Rightarrow> Some e))))"
  by (induction xs arbitrary: st) (auto split: prod.splits option.splits)

lemma micro_batch_rejected:
  "plan_batch (cacheContent st) keys indexes = Submit ind lines \<Longrightarrow>
   \<not> addConfigLines w ind lines \<Longrightarrow>
   micro_batch w keys indexes st = (emit [AddConfigLines ind lines] st, Some Rejected)"
  by (simp add: micro_batch_def)

lemma batch_phase_flushes:
  "cacheFile (batch_phase w st) = Some (to_json (cacheContent (batch_phase w st)))"
  by (simp add: batch_phase_def writeCache_def Let_def)

lemma batch_phase_reports:
  assumes "chunks [0 ..< length (obj_keys (items (cacheContent st)))] 1000 = Inr groups"
      and "all_groups w (obj_keys (items (cacheContent st))) groups st = (st', Some e)"
  shows "events (batch_phase w st) = events st' @ [LoggedBatchError e]"
  using assms by (simp add: batch_phase_def writeCache_def emit_def Let_def)



text \<open>
  Claim C3, as the code has it. When the submission of a micro-batch fails, the loop of
  its macro-group ends there: the state is the one the earlier micro-batches left, with
  only the failed request added to the events, so the records of the failed micro-batch
  are unchanged and no later micro-batch of the macro-group is looked at. The batch
  phase itself always returns: it logs the error and then writes the cache file.
\<close>

theorem failed_micro_batch_ends_group:
  assumes "keys = obj_keys (items (cacheContent st))"
      and "chunks [0 ..< length keys] 1000 = Inr (gpre @ g # gpost)"
      and "all_groups w keys gpre st = (sta, ra)"
      and "micro_batches 0 g = pre @ indexes # post"
      and "macro_group_loop w keys pre sta = (st1, None)"
      and "plan_batch (cacheContent st1) keys indexes = Submit ind lines"
      and "\<not> addConfigLines w ind lines"
  shows "macro_group w keys g sta = (st1\<lparr>events := events st1 @ [AddConfigLines ind lines]\<rparr>, Some Rejected)
       \<and> (\<exists>e. LoggedBatchError e \<in> set (events (batch_phase w st)))
       \<and> cacheFile (batch_phase w st) = Some (to_json (cacheContent (batch_phase w st)))"
proof -
  have g: "macro_group w keys g sta = (emit [AddConfigLines ind lines] st1, Some Rejected)"
    using assms(4,5) micro_batch_rejected[OF assms(6,7)]
    by (simp add: macro_group_def macro_group_loop_append)
  obtain stb rb where b: "all_groups w keys gpost (emit [AddConfigLines ind lines] st1) = (stb, rb)"
    by (cases "all_groups w keys gpost (emit [AddConfigLines ind lines] st1)")
  have "\<exists>e. all_groups w keys (gpre @ g # gpost) st = (stb, Some e)"
    using assms(3) g b by (cases ra) (simp_all add: all_groups_append)
  then obtain e where "all_groups w keys (gpre @ g # gpost) st = (stb, Some e)" ..
  from batch_phase_reports[OF assms(2)[unfolded assms(1)] this[unfolded assms(1)]]
  have "LoggedBatchError e \<in> set (events (batch_phase w st))" by simp
  with g batch_phase_flushes show ?thesis by (auto simp: emit_def)
qed


theorem failed_micro_batch_ends_group_witness:
  "[''0'', ''1'', ''2''] = obj_keys (items (cacheContent (state_of example_cache_3)))
   \<and> chunks [0 ..< length [''0'', ''1'', ''2'']] 1000 = Inr ([] @ [0, 1, 2] # [])
   \<and> all_groups first_batch_fails [''0'', ''1'', ''2''] [] (state_of example_cache_3)
       = (state_of example_cache_3, None)
   \<and> micro_batches 0 [0, 1, 2::nat] = [] @ [0, 1, 2] # []
   \<and> macro_group_loop first_batch_fails [''0'', ''1'', ''2''] [] (state_of example_cache_3)
       = (state_of example_cache_3, None)
   \<and> plan_batch (cacheContent (state_of example_cache_3)) [''0'', ''1'', ''2''] [0, 1, 2]
       = Submit (Some ''0'') [(Some ''https://arweave.net/a'', Some ''Item #0''),
                              (Some ''https://arweave.net/b'', Some ''Item #1''),
                              (Some ''https://arweave.net/c'', Some ''Item #2'')]
   \<and> \<not> addConfigLines first_batch_fails (Some ''0'')
           [(Some ''https://arweave.net/a'', Some ''Item #0''),
            (Some ''https://arweave.net/b'', Some ''Item #1''),
            (Some ''https://arweave.net/c'', Some ''Item #2'')]
   \<and> macro_group first_batch_fails [''0'', ''1'', ''2''] [0, 1, 2] (state_of example_cache_3)
       = ((state_of example_cache_3)
            \<lparr>events := events (state_of example_cache_3)
               @ [AddConfigLines (Some ''0'')
                    [(Some ''https://arweave.net/a'', Some ''Item #0''),
                     (Some ''https://arweave.net/b'', Some ''Item #1''),
                     (Some ''https://arweave.net/c'', Some ''Item #2'')]]\<rparr>, Some Rejected)
   \<and> (\<exists>e. LoggedBatchError e
             \<in> set (events (batch_phase first_batch_fails (state_of example_cache_3))))
   \<and> cacheFile (batch_phase first_batch_fails (state_of example_cache_3))
       = Some (to_json (cacheContent (batch_phase first_batch_fails (state_of example_cache_3))))"
proof -
  let ?lines = "[(Some ''https://arweave.net/a'', Some ''Item #0''),
                 (Some ''https://arweave.net/b'', Some ''Item #1''),
                 (Some ''https://arweave.net/c'', Some ''Item #2'')]"
  have h1: "[''0'', ''1'', ''2''] = obj_keys (items (cacheContent (state_of example_cache_3)))"
    by (simp add: state_of_def example_cache_3_def obj_keys_def)
  have h2: "chunks [0 ..< length [''0'', ''1'', ''2'']] 1000 = Inr ([] @ [0, 1, 2] # [])"
    by code_simp
  have h3: "all_groups first_batch_fails [''0'', ''1'', ''2''] [] (state_of example_cache_3)
       = (state_of example_cache_3, None)" by simp
  have h4: "micro_batches 0 [0, 1, 2::nat] = [] @ [0, 1, 2] # []" by code_simp
  have h5: "macro_group_loop first_batch_fails [''0'', ''1'', ''2''] [] (state_of example_cache_3)
       = (state_of example_cache_3, None)" by simp
  have h6: "plan_batch (cacheContent (state_of example_cache_3)) [''0'', ''1'', ''2''] [0, 1, 2]
       = Submit (Some ''0'') ?lines" by code_simp
  have h7: "\<not> addConfigLines first_batch_fails (Some ''0'') ?lines"
    by (simp add: first_batch_fails_def)
  from failed_micro_batch_ends_group[OF h1 h2 h3 h4 h5 h6 h7] h1 h2 h3 h4 h5 h6 h7
  show ?thesis by blast
qed

text \<open>
  Claim C3 as stated fails: with eleven unregistered records, the ledger rejecting the
  batch that starts at key \<open>0\<close> and ready to confirm any other, the macro-group has a
  second micro-batch, position 10, which needs a submission the ledger would confirm.
  The run sends the first request only, logs the rejection, and leaves the record of key
  \<open>10\<close> unregistered.
\<close>

theorem rejected_batch_counterexample:
  "micro_batches 0 [0 ..< 11] = [[0 ..< 10], [10]]
   \<and> plan_batch example_cache_11 (obj_keys (items example_cache_11)) [10]
       = Submit (Some ''10'') [(Some ''https://arweave.net/10'', Some ''Item #10'')]
   \<and> addConfigLines first_batch_fails (Some ''10'')
        [(Some ''https://arweave.net/10'', Some ''Item #10'')]
   \<and> events (batch_phase first_batch_fails (state_of example_cache_11))
       = [AddConfigLines (Some ''0'')
            (map (\<lambda>i. (link (snd (unregistered_item i)), name (snd (unregistered_item i))))
               [0 ..< 10]),
          LoggedBatchError Rejected]
   \<and> \<not> registered (cacheContent (batch_phase first_batch_fails (state_of example_cache_11)))
         ''10''"
  by code_simp

section \<open>Events of a run\<close>

lemma uploads_of_append [simp]: "uploads_of (es @ es') = uploads_of es @ uploads_of es'"
  by (simp add: uploads_of_def)

lemma payments_of_append [simp]: "payments_of (es @ es') = payments_of es @ payments_of es'"
  by (simp add: payments_of_def)

lemma uploads_of_simps [simp]:
  "uploads_of [] = []"
  "uploads_of (StorageUpload index r # es) = (index, r) # uploads_of es"
  "uploads_of (CreateConfig n # es) = uploads_of es"
  "uploads_of (Payment index # es) = uploads_of es"
  "uploads_of (AddConfigLines ind lines # es) = uploads_of es"
  "uploads_of (LoggedConfigError # es) = uploads_of es"
  "uploads_of (LoggedUploadError index # es) = uploads_of es"
  "uploads_of (LoggedBatchError e # es) = uploads_of es"
  by (simp_all add: uploads_of_def)

lemma payments_of_simps [simp]:
  "payments_of [] = []"
  "payments_of (Payment index # es) = index # payments_of es"
  "payments_of (CreateConfig n # es) = payments_of es"
  "payments_of (StorageUpload index r # es) = payments_of es"
  "payments_of (AddConfigLines ind lines # es) = payments_of es"
  "payments_of (LoggedConfigError # es) = payments_of es"
  "payments_of (LoggedUploadError index # es) = payments_of es"
  "payments_of (LoggedBatchError e # es) = payments_of es"
  by (simp_all add: payments_of_def)

lemma events_initialize_config:
  "uploads_of (events (initialize_config w SIZE mf st)) = uploads_of (events st)
   \<and> payments_of (events (initialize_config w SIZE mf st)) = payments_of (events st)
   \<and> items (cacheContent (initialize_config w SIZE mf st)) = items (cacheContent st)"
  by (simp add: initialize_config_def emit_def writeCache_def split: option.splits prod.splits)

lemma uploads_pay_and_upload:
  "\<exists>rs. uploads_of (events (final_state (pay_and_upload w env imageFile index mf link0 st)))
          = uploads_of (events st) @ rs \<and> (\<forall>(k, r)\<in>set rs. req_env r = env)"
  by (auto simp: pay_and_upload_def emit_def writeCache_def Let_def
           split: option.splits upload_response.splits)

lemma uploads_upload_item:
  "\<exists>rs. uploads_of (events (final_state (upload_item w env SIZE i imageFile st)))
          = uploads_of (events st) @ rs \<and> (\<forall>(k, r)\<in>set rs. req_env r = env)"
proof -
  have a: "\<And>s mf link0 index. uploads_of (events s) = uploads_of (events st) \<Longrightarrow>
     \<exists>rs. uploads_of (events (final_state (pay_and_upload w env imageFile index mf link0 s)))
          = uploads_of (events st) @ rs \<and> (\<forall>(k, r)\<in>set rs. req_env r = env)"
    using uploads_pay_and_upload by metis
  show ?thesis
    unfolding upload_item_def Let_def
    by (auto split: option.splits intro!: a simp: events_initialize_config)
qed

lemma uploads_upload_loop:
  "(\<forall>(k, r)\<in>set (uploads_of (events st)). req_env r = env) \<Longrightarrow>
   \<forall>(k, r)\<in>set (uploads_of (events (final_state (upload_loop w env SIZE i images st)))).
      req_env r = env"
proof (induction images arbitrary: i st)
  case Nil
  then show ?case by simp
next
  case (Cons imageFile rest)
  from uploads_upload_item[of w env SIZE i imageFile st] obtain rs where
    rs: "uploads_of (events (final_state (upload_item w env SIZE i imageFile st)))
          = uploads_of (events st) @ rs" "\<forall>(k, r)\<in>set rs. req_env r = env" by blast
  show ?case
  proof (cases "upload_item w env SIZE i imageFile st")
    case (Completed st')
    with rs Cons.prems have "\<forall>(k, r)\<in>set (uploads_of (events st')). req_env r = env" by auto
    from Cons.IH[OF this] Completed show ?thesis by simp
  next
    case (Aborted st')
    with rs Cons.prems show ?thesis by auto
  qed
qed

lemma events_micro_batch:
  "uploads_of (events (fst (micro_batch w keys indexes st))) = uploads_of (events st)
   \<and> payments_of (events (fst (micro_batch w keys indexes st))) = payments_of (events st)"
  by (simp add: micro_batch_def emit_def writeCache_def Let_def split: batch_plan.splits)

lemma events_macro_group_loop:
  "uploads_of (events (fst (macro_group_loop w keys bs st))) = uploads_of (events st)
   \<and> payments_of (events (fst (macro_group_loop w keys bs st))) = payments_of (events st)"
proof (induction bs arbitrary: st)
  case Nil
  then show ?case by simp
next
  case (Cons b bs)
  show ?case
    using events_micro_batch[of w keys b st] Cons.IH[of "fst (micro_batch w keys b st)"]
    by (auto split: prod.splits option.splits)
qed

lemma events_all_groups:
  "uploads_of (events (fst (all_groups w keys gs st))) = uploads_of (events st)
   \<and> payments_of (events (fst (all_groups w keys gs st))) = payments_of (events st)"
proof (induction gs arbitrary: st)
  case Nil
  then show ?case by simp
next
  case (Cons g gs)
  show ?case
    using events_macro_group_loop[of w keys "micro_batches 0 g" st]
      Cons.IH[of "fst (macro_group w keys g st)"]
    by (auto simp: macro_group_def split: prod.splits)
qed

lemma events_all_groups_result:
  "all_groups w keys gs st = (st', r) \<Longrightarrow>
   uploads_of (events st') = uploads_of (events st)
   \<and> payments_of (events st') = payments_of (events st)"
  using events_all_groups[of w keys gs st] by simp

lemma events_batch_phase:
  "uploads_of (events (batch_phase w st)) = uploads_of (events st)
   \<and> payments_of (events (batch_phase w st)) = payments_of (events st)"
  by (auto simp: batch_phase_def writeCache_def emit_def Let_def
           dest: events_all_groups_result
           split: sum.splits prod.splits option.splits)

text \<open>
  Claim C10. The \<^verbatim>\<open>switch\<close> on the cluster URL falls through: for the mainnet, the
  testnet and the devnet URL the tag is \<^verbatim>\<open>devnet\<close>, for any other URL it stays undefined;
  and every storage upload request of the upload command carries this tag in its
  \<^verbatim>\<open>env\<close> field.
\<close>

theorem env_tag_falls_through:
  "env_of_url url =
     (if url \<in> {MAINNET_CLUSTER_URL, TESTNET_CLUSTER_URL, DEVNET_CLUSTER_URL}
      then Some ''devnet'' else None)
   \<and> (\<forall>(index, r)\<in>set (uploads_of (events (final_state
           (upload_action w url files savedContent)))). req_env r = env_of_url url)"
proof -
  let ?st0 = "\<lparr>cacheContent = fst (load_cache savedContent), cacheFile = savedContent,
                 events = []\<rparr>"
  let ?images = "images_of files (snd (load_cache savedContent))"
  have "\<forall>(k, r)\<in>set (uploads_of (events ?st0)). req_env r = env_of_url url" by simp
  from uploads_upload_loop[OF this, of w "length ?images" 0 ?images]
  have "\<forall>(index, r)\<in>set (uploads_of (events (final_state
           (upload_action w url files savedContent)))). req_env r = env_of_url url"
    by (cases "upload_loop w (env_of_url url) (length ?images) 0 ?images ?st0")
       (simp_all add: upload_action_def Let_def events_batch_phase)
  then show ?thesis by (simp add: env_of_url_def Let_def)
qed

theorem env_tag_falls_through_witness:
  "env_of_url MAINNET_CLUSTER_URL = Some ''devnet''
   \<and> map (\<lambda>(index, r). (index, req_env r))
        (uploads_of (events (final_state (upload_action all_succeed MAINNET_CLUSTER_URL
           [''assets/0.json'', ''assets/0.png''] None))))
       = [(''0'', env_of_url MAINNET_CLUSTER_URL)]"
proof -
  have n: "map fst (uploads_of (events (final_state (upload_action all_succeed
             MAINNET_CLUSTER_URL [''assets/0.json'', ''assets/0.png''] None)))) = [''0'']"
    by code_simp
  have t: "env_of_url MAINNET_CLUSTER_URL =
       (if MAINNET_CLUSTER_URL \<in> {MAINNET_CLUSTER_URL, TESTNET_CLUSTER_URL, DEVNET_CLUSTER_URL}
        then Some ''devnet'' else None)
     \<and> (\<forall>(index, r)\<in>set (uploads_of (events (final_state (upload_action all_succeed
             MAINNET_CLUSTER_URL [''assets/0.json'', ''assets/0.png''] None)))).
               req_env r = env_of_url MAINNET_CLUSTER_URL)"
    by (rule env_tag_falls_through)
  from t have e: "env_of_url MAINNET_CLUSTER_URL = Some ''devnet''" by simp
  from t have a: "\<forall>(index, r)\<in>set (uploads_of (events (final_state (upload_action all_succeed
             MAINNET_CLUSTER_URL [''assets/0.json'', ''assets/0.png''] None)))).
               req_env r = env_of_url MAINNET_CLUSTER_URL"
    by (rule conjunct2)
  from n obtain p where p: "uploads_of (events (final_state (upload_action all_succeed
             MAINNET_CLUSTER_URL [''assets/0.json'', ''assets/0.png''] None))) = [p]"
      "fst p = ''0''" by auto
  with a have "req_env (snd p) = env_of_url MAINNET_CLUSTER_URL" by (cases p) simp
  with p e show ?thesis by (cases p) simp
qed

section \<open>The item loop\<close>

lemma upload_item_unfold:
  "upload_item w env SIZE i imageFile st =
     (if truthy (link_in (cacheContent st) (index_of imageFile))
         \<and> truthy (uuid (program (cacheContent st))) then Completed st
      else if \<not> readImage w imageFile then Aborted st
      else (case readManifest w (js_replace imageFile extension ''.json'') (basename imageFile) of
              None \<Rightarrow> Aborted st
            | Some mf \<Rightarrow>
                (let st1 = (if i = 0 \<and> \<not> truthy (uuid (program (cacheContent st)))
                            then initialize_config w SIZE mf st else st)
                 in if truthy (link_in (cacheContent st) (index_of imageFile)) then Completed st1
                    else pay_and_upload w env imageFile (index_of imageFile) mf
                           (link_in (cacheContent st) (index_of imageFile)) st1)))"
  by (auto simp: upload_item_def index_of_def link_in_def Let_def split: option.splits)

text \<open>
  Claim C2, as the code has it. When an item without a link is paid for and its upload
  returns a parsed response, the record written for the item has the name of the
  manifest, \<open>onChain = False\<close>, and the link \<^verbatim>\<open>https://arweave.net/<transactionId>\<close> of
  the first response record whose file name is \<^verbatim>\<open>manifest.json\<close>, when that record has a
  non-empty transaction id; with no record of that name, or with one that has no
  transaction id, the link stays as it was (absent or empty). The cache file is written right after, with this record in it.
\<close>

theorem uploaded_link_is_manifest_json:
  assumes "\<not> truthy (link_in (cacheContent st) (index_of imageFile))"
      and "readImage w imageFile"
      and "readManifest w (js_replace imageFile extension ''.json'') (basename imageFile) = Some mf"
      and "sendPayment w (index_of imageFile) = Some txid"
      and "uploadFile3 w \<lparr>req_transaction = txid, req_env = env,
              req_files = [(''image.png'', ImageStream imageFile),
                           (''metadata.json'', ManifestBuffer mf)]\<rparr> = Json messages"
  shows "\<exists>st'. upload_item w env SIZE i imageFile st = Completed st'
          \<and> map_of (items (cacheContent st')) (index_of imageFile)
              = Some \<lparr>link = link_of_response (link_in (cacheContent st) (index_of imageFile)) messages,
                      name = manifest_name mf, onChain = False\<rparr>
          \<and> cacheFile st' = Some (to_json (cacheContent st'))
          \<and> (\<forall>ms m t. messages = Some ms
                \<and> find (\<lambda>m. filename m = ''manifest.json'') ms = Some m
                \<and> transactionId m = Some t \<and> t \<noteq> []
                \<longrightarrow> link_of_response (link_in (cacheContent st) (index_of imageFile)) messages
                      = Some (''https://arweave.net/'' @ t))
          \<and> ((\<forall>ms. messages = Some ms \<longrightarrow> (\<forall>m\<in>set ms. filename m \<noteq> ''manifest.json''))
                \<longrightarrow> link_of_response (link_in (cacheContent st) (index_of imageFile)) messages
                      = link_in (cacheContent st) (index_of imageFile))
          \<and> (\<forall>ms m. messages = Some ms
                \<and> find (\<lambda>m. filename m = ''manifest.json'') ms = Some m
                \<and> \<not> truthy (transactionId m)
                \<longrightarrow> link_of_response (link_in (cacheContent st) (index_of imageFile)) messages
                      = link_in (cacheContent st) (index_of imageFile))"
proof -
  let ?st1 = "if i = 0 \<and> \<not> truthy (uuid (program (cacheContent st)))
              then initialize_config w SIZE mf st else st"
  let ?index = "index_of imageFile"
  let ?link0 = "link_in (cacheContent st) ?index"
  have u: "upload_item w env SIZE i imageFile st
             = pay_and_upload w env imageFile ?index mf ?link0 ?st1"
    using assms(1,2,3) by (simp add: upload_item_unfold Let_def)
  have p: "\<exists>st'. pay_and_upload w env imageFile ?index mf ?link0 ?st1 = Completed st'
          \<and> map_of (items (cacheContent st')) ?index
              = Some \<lparr>link = link_of_response ?link0 messages,
                      name = manifest_name mf, onChain = False\<rparr>
          \<and> cacheFile st' = Some (to_json (cacheContent st'))"
    using assms(4,5)
    by (simp add: pay_and_upload_def Let_def writeCache_def emit_def map_of_obj_set)
  have a: "\<forall>ms m t. messages = Some ms
                \<and> find (\<lambda>m. filename m = ''manifest.json'') ms = Some m
                \<and> transactionId m = Some t \<and> t \<noteq> []
                \<longrightarrow> link_of_response ?link0 messages = Some (''https://arweave.net/'' @ t)"
    by (auto simp: link_of_response_def find_metadataFile_def)
  have b: "(\<forall>ms. messages = Some ms \<longrightarrow> (\<forall>m\<in>set ms. filename m \<noteq> ''manifest.json''))
                \<longrightarrow> link_of_response ?link0 messages = ?link0"
  proof (cases messages)
    case None
    then show ?thesis by (simp add: link_of_response_def find_metadataFile_def)
  next
    case (Some ms)
    show ?thesis
    proof
      assume "\<forall>ms. messages = Some ms \<longrightarrow> (\<forall>m\<in>set ms. filename m \<noteq> ''manifest.json'')"
      with Some have "find (\<lambda>m. filename m = ''manifest.json'') ms = None"
        by (simp add: find_None_iff)
      with Some show "link_of_response ?link0 messages = ?link0"
        by (simp add: link_of_response_def find_metadataFile_def)
    qed
  qed
  from p obtain st' where st':
      "pay_and_upload w env imageFile ?index mf ?link0 ?st1 = Completed st'"
      "map_of (items (cacheContent st')) ?index
         = Some \<lparr>link = link_of_response ?link0 messages,
                 name = manifest_name mf, onChain = False\<rparr>"
      "cacheFile st' = Some (to_json (cacheContent st'))"
    by blast
  have c: "\<forall>ms m. messages = Some ms
                \<and> find (\<lambda>m. filename m = ''manifest.json'') ms = Some m
                \<and> \<not> truthy (transactionId m)
                \<longrightarrow> link_of_response ?link0 messages = ?link0"
    by (auto simp: link_of_response_def find_metadataFile_def truthy_def split: option.splits)
  have "upload_item w env SIZE i imageFile st = Completed st'"
    by (simp only: u st'(1))
  then show ?thesis using st'(2,3) a b c by blast
qed

theorem uploaded_link_is_manifest_json_witness:
  "\<not> truthy (link_in (cacheContent empty_state) (index_of ''assets/0.png''))
   \<and> readImage all_succeed ''assets/0.png''
   \<and> readManifest all_succeed (js_replace ''assets/0.png'' extension ''.json'')
        (basename ''assets/0.png'')
       = Some \<lparr>manifest_name = Some ''Item'', symbol = None,
               seller_fee_basis_points = None, creators = None\<rparr>
   \<and> sendPayment all_succeed (index_of ''assets/0.png'') = Some ''tx''
   \<and> uploadFile3 all_succeed
        \<lparr>req_transaction = ''tx'', req_env = Some ''devnet'',
         req_files = [(''image.png'', ImageStream ''assets/0.png''),
                      (''metadata.json'', ManifestBuffer
                         \<lparr>manifest_name = Some ''Item'', symbol = None,
                          seller_fee_basis_points = None, creators = None\<rparr>)]\<rparr>
       = Json (Some [\<lparr>filename = ''image.png'', transactionId = Some ''IMG''\<rparr>,
                     \<lparr>filename = ''metadata.json'', transactionId = Some ''META''\<rparr>,
                     \<lparr>filename = ''manifest.json'', transactionId = Some ''MAN''\<rparr>])
   \<and> (\<exists>st'. upload_item all_succeed (Some ''devnet'') 1 0 ''assets/0.png'' empty_state
               = Completed st'
          \<and> map_of (items (cacheContent st')) ''0''
              = Some \<lparr>link = Some ''https://arweave.net/MAN'', name = Some ''Item'',
                      onChain = False\<rparr>
          \<and> cacheFile st' = Some (to_json (cacheContent st')))"
proof -
  let ?mf = "\<lparr>manifest_name = Some ''Item'', symbol = None,
               seller_fee_basis_points = None, creators = None\<rparr>"
  let ?ms = "Some [\<lparr>filename = ''image.png'', transactionId = Some ''IMG''\<rparr>,
                     \<lparr>filename = ''metadata.json'', transactionId = Some ''META''\<rparr>,
                     \<lparr>filename = ''manifest.json'', transactionId = Some ''MAN''\<rparr>]"
  have h1: "\<not> truthy (link_in (cacheContent empty_state) (index_of ''assets/0.png''))"
    by code_simp
  have h2: "readImage all_succeed ''assets/0.png''" by (simp add: all_succeed_def)
  have h3: "readManifest all_succeed (js_replace ''assets/0.png'' extension ''.json'')
        (basename ''assets/0.png'') = Some ?mf" by (simp add: all_succeed_def)
  have h4: "sendPayment all_succeed (index_of ''assets/0.png'') = Some ''tx''"
    by (simp add: all_succeed_def)
  have h5: "uploadFile3 all_succeed
        \<lparr>req_transaction = ''tx'', req_env = Some ''devnet'',
         req_files = [(''image.png'', ImageStream ''assets/0.png''),
                      (''metadata.json'', ManifestBuffer ?mf)]\<rparr> = Json ?ms"
    by (simp add: all_succeed_def)
  have i: "index_of ''assets/0.png'' = ''0''" by code_simp
  have l: "link_of_response (link_in (cacheContent empty_state) ''0'') ?ms
             = Some ''https://arweave.net/MAN''" by code_simp
  from uploaded_link_is_manifest_json[OF h1 h2 h3 h4 h5, of 1 0]
  have "\<exists>st'. upload_item all_succeed (Some ''devnet'') 1 0 ''assets/0.png'' empty_state
               = Completed st'
          \<and> map_of (items (cacheContent st')) ''0''
              = Some \<lparr>link = Some ''https://arweave.net/MAN'', name = Some ''Item'',
                      onChain = False\<rparr>
          \<and> cacheFile st' = Some (to_json (cacheContent st'))"
    unfolding i l by auto
  with h1 h2 h3 h4 h5 show ?thesis by blast
qed

text \<open>
  Claim C2 as stated fails. The metadata is uploaded under the file name
  \<^verbatim>\<open>metadata.json\<close>; when the service answers with one record per uploaded file, under
  these names, the record of \<^verbatim>\<open>metadata.json\<close> is not used and the item is stored with no
  link.
\<close>

theorem metadata_record_not_used_counterexample:
  "uploads_of (events (final_state
       (upload_item storage_echoes_files None 1 0 ''assets/0.png'' empty_state)))
     = [(''0'', \<lparr>req_transaction = ''tx'', req_env = None,
                 req_files = [(''image.png'', ImageStream ''assets/0.png''),
                      (''metadata.json'', ManifestBuffer
                         \<lparr>manifest_name = Some ''Item'', symbol = None,
                          seller_fee_basis_points = None, creators = None\<rparr>)]\<rparr>)]
   \<and> uploadFile3 storage_echoes_files
        \<lparr>req_transaction = ''tx'', req_env = None,
         req_files = [(''image.png'', ImageStream ''assets/0.png''),
                      (''metadata.json'', ManifestBuffer
                         \<lparr>manifest_name = Some ''Item'', symbol = None,
                          seller_fee_basis_points = None, creators = None\<rparr>)]\<rparr>
       = Json (Some [\<lparr>filename = ''image.png'', transactionId = Some ''tx-of-image.png''\<rparr>,
                     \<lparr>filename = ''metadata.json'',
                      transactionId = Some ''tx-of-metadata.json''\<rparr>])
   \<and> map_of (items (cacheContent (final_state
          (upload_item storage_echoes_files None 1 0 ''assets/0.png'' empty_state)))) ''0''
       = Some \<lparr>link = None, name = Some ''Item'', onChain = False\<rparr>"
  by code_simp

section \<open>A second run\<close>










section \<open>Registered records and their links\<close>

lemma all_linked_items_ok: "all_linked its \<Longrightarrow> items_ok its"
  by (auto simp: all_linked_def items_ok_def list_all_iff)

lemma items_ok_obj_set:
  "items_ok ob \<Longrightarrow> (onChain v \<Longrightarrow> truthy (link v)) \<Longrightarrow> items_ok (obj_set ob k v)"
  using set_obj_set[of ob k v] by (auto simp: items_ok_def list_all_iff split: if_splits)

lemma all_linked_obj_set:
  "all_linked ob \<Longrightarrow> truthy (link v) \<Longrightarrow> all_linked (obj_set ob k v)"
  using set_obj_set[of ob k v] by (auto simp: all_linked_def list_all_iff)

lemma items_ok_pay_and_upload:
  "items_ok (items (cacheContent st)) \<Longrightarrow>
   items_ok (items (cacheContent (final_state (pay_and_upload w env imageFile index mf link0 st))))"
  by (auto simp: pay_and_upload_def Let_def emit_def writeCache_def
           intro!: items_ok_obj_set split: option.splits upload_response.splits)

lemma items_ok_upload_item:
  "items_ok (items (cacheContent st)) \<Longrightarrow>
   items_ok (items (cacheContent (final_state (upload_item w env SIZE i imageFile st))))"
  by (auto simp: upload_item_unfold Let_def events_initialize_config
           intro!: items_ok_pay_and_upload split: option.splits)

lemma items_ok_upload_loop:
  "items_ok (items (cacheContent st)) \<Longrightarrow>
   items_ok (items (cacheContent (final_state (upload_loop w env SIZE i images st))))"
proof (induction images arbitrary: i st)
  case Nil
  then show ?case by simp
next
  case (Cons imageFile rest)
  from items_ok_upload_item[OF Cons.prems, of w env SIZE i imageFile]
  show ?case using Cons.IH by (cases "upload_item w env SIZE i imageFile st") simp_all
qed

lemma all_linked_mark_onChain:
  assumes "all_linked (items d)" "item_at d keys i \<noteq> None"
  shows "all_linked (items (mark_onChain keys d i))"
proof -
  from assms(2) obtain it where it: "map_of (items d) (key_name keys i) = Some it"
    by (auto simp: item_at_def)
  then have "(key_name keys i, it) \<in> set (items d)" by (rule map_of_SomeD)
  with assms(1) have "truthy (link it)" by (auto simp: all_linked_def list_all_iff)
  with assms(1) it show ?thesis
    by (simp add: mark_onChain_def item_at_def all_linked_obj_set)
qed

lemma all_linked_foldl_mark:
  "all_linked (items d) \<Longrightarrow> \<forall>i\<in>set indexes. item_at d keys i \<noteq> None \<Longrightarrow>
   all_linked (items (foldl (mark_onChain keys) d indexes))"
proof (induction indexes arbitrary: d)
  case Nil
  then show ?case by simp
next
  case (Cons i indexes)
  have "all_linked (items (mark_onChain keys d i))"
    using Cons.prems by (intro all_linked_mark_onChain) simp_all
  moreover have "\<forall>j\<in>set indexes. item_at (mark_onChain keys d i) keys j \<noteq> None"
    using Cons.prems(2) by (simp add: item_at_mark_onChain)
  ultimately show ?case using Cons.IH by simp
qed

lemma all_linked_micro_batch:
  "all_linked (items (cacheContent st)) \<Longrightarrow>
   all_linked (items (cacheContent (fst (micro_batch w keys indexes st))))"
  by (auto simp: micro_batch_def Let_def emit_def writeCache_def
           dest!: plan_batch_SubmitD intro!: all_linked_foldl_mark
           split: batch_plan.splits)

lemma all_linked_macro_group_loop:
  "all_linked (items (cacheContent st)) \<Longrightarrow>
   all_linked (items (cacheContent (fst (macro_group_loop w keys bs st))))"
proof (induction bs arbitrary: st)
  case Nil
  then show ?case by simp
next
  case (Cons b bs)
  from all_linked_micro_batch[OF Cons.prems, of w keys b] Cons.IH[of "fst (micro_batch w keys b st)"]
  show ?case by (auto split: prod.splits option.splits)
qed

lemma all_linked_all_groups:
  "all_linked (items (cacheContent st)) \<Longrightarrow>
   all_linked (items (cacheContent (fst (all_groups w keys gs st))))"
proof (induction gs arbitrary: st)
  case Nil
  then show ?case by simp
next
  case (Cons g gs)
  from all_linked_macro_group_loop[OF Cons.prems, of w keys "micro_batches 0 g"]
    Cons.IH[of "fst (macro_group w keys g st)"]
  show ?case by (auto simp: macro_group_def split: prod.splits)
qed

lemma all_linked_batch_phase:
  assumes "all_linked (items (cacheContent st))"
  shows "all_linked (items (cacheContent (batch_phase w st)))"
proof -
  have "all_linked (items (cacheContent st'))"
    if "all_groups w (obj_keys (items (cacheContent st))) gs st = (st', r)" for gs st' r
    using all_linked_all_groups[OF assms, of w "obj_keys (items (cacheContent st))" gs] that
    by simp
  then show ?thesis using assms
    by (auto simp: batch_phase_def writeCache_def emit_def Let_def
             split: sum.splits prod.splits option.splits)
qed

section \<open>Verification\<close>




lemma js_match_modelled:
  "pattern_modelled regexp \<Longrightarrow> \<exists>b. js_match s regexp = Some b"
  by (auto simp: pattern_modelled_def js_match_def split: option.splits)

lemma verify_item_modelled:
  assumes "pattern_modelled (name cacheItem)" "pattern_modelled (link cacheItem)"
  shows "verify_item decode data i cacheItem = Inr (reconciled decode data i cacheItem)"
proof -
  from js_match_modelled[OF assms(1)] obtain a where
    a: "js_match (ledger_name decode data i) (name cacheItem) = Some a" by blast
  from js_match_modelled[OF assms(2)] obtain b where
    b: "js_match (ledger_uri decode data i) (link cacheItem) = Some b" by blast
  have s: "slice data (configArrayStart + 4 + configLineSize * i)
             (configArrayStart + 4 + configLineSize * (i + 1)) = ledger_record data i"
    by (simp add: slice_def ledger_record_def mult.commute)
  show ?thesis
    using a b unfolding verify_item_def Let_def s
    by (cases a; cases b)
       (simp_all add: reconciled_def ledger_name_def ledger_uri_def slice_def)
qed



lemma verify_item_cases:
  "verify_item decode data i cacheItem = Inr cacheItem' \<Longrightarrow>
   cacheItem' = cacheItem \<or> cacheItem' = cacheItem\<lparr>onChain := False\<rparr>"
  by (auto simp: verify_item_def Let_def split: option.splits bool.splits)

lemma items_ok_verify_loop:
  "verify_loop decode data i its = Inr its' \<Longrightarrow> items_ok its \<Longrightarrow> items_ok its'"
proof (induction its arbitrary: i its')
  case Nil
  then show ?case by simp
next
  case (Cons p its)
  obtain k it where p: "p = (k, it)" by (cases p)
  from Cons.prems(1) p obtain it' rest' where
    r: "verify_item decode data i it = Inr it'" "verify_loop decode data (Suc i) its = Inr rest'"
       "its' = (k, it') # rest'"
    by (auto split: sum.splits)
  from Cons.prems(2) p have ok: "if onChain it then truthy (link it) else True" "items_ok its"
    by (simp_all add: items_ok_def)
  from verify_item_cases[OF r(1)] ok(1)
  have "if onChain it' then truthy (link it') else True" by (auto split: if_splits)
  with Cons.IH[OF r(2) ok(2)] r(3) show ?case by (simp add: items_ok_def)
qed

lemma items_ok_verify_action:
  assumes "verify_action w decode (Some cachedContent) = Inr written"
      and "json_items cachedContent = Some its" and "items_ok its"
  shows "\<exists>its'. json_items written = Some its' \<and> items_ok its'"
  using assms items_ok_verify_loop
  by (fastforce simp: verify_action_def split: option.splits sum.splits)

lemma length_u32le: "length (u32le n) = 4"
  by (simp add: u32le_def)

lemma length_padded: "length s \<le> n \<Longrightarrow> length (padded n s) = n"
  by (simp add: padded_def)

lemma length_config_line_bytes:
  "length nm \<le> 32 \<Longrightarrow> length uri \<le> 200 \<Longrightarrow> length (config_line_bytes nm uri) = configLineSize"
  by (simp add: config_line_bytes_def length_padded u32le_def configLineSize_def)

lemma take_drop_concat:
  "\<forall>l\<in>set ls. length l = k \<Longrightarrow> i < length ls \<Longrightarrow> take k (drop (i * k) (concat ls)) = ls ! i"
proof (induction ls arbitrary: i)
  case Nil
  then show ?case by simp
next
  case (Cons l ls)
  show ?case
  proof (cases i)
    case 0
    with Cons.prems show ?thesis by simp
  next
    case (Suc j)
    with Cons.prems Cons.IH[of j] show ?thesis by simp
  qed
qed

lemma ledger_record_bytes:
  assumes "\<forall>(nm, uri)\<in>set lines. length nm \<le> 32 \<and> length uri \<le> 200" "i < length lines"
  shows "ledger_record (ledger_bytes lines) i
           = config_line_bytes (fst (lines ! i)) (snd (lines ! i))"
proof -
  let ?ls = "map (\<lambda>(nm, uri). config_line_bytes nm uri) lines"
  have "\<forall>l\<in>set ?ls. length l = configLineSize"
    using assms(1) by (auto simp: length_config_line_bytes)
  from take_drop_concat[OF this, of i] assms(2)
  have "take configLineSize (drop (i * configLineSize) (concat ?ls)) = ?ls ! i" by simp
  also have "?ls ! i = config_line_bytes (fst (lines ! i)) (snd (lines ! i))"
    using assms(2) by (simp add: case_prod_beta)
  finally show ?thesis
    by (simp add: ledger_record_def ledger_bytes_def length_u32le)
qed

lemma ledger_fields_bytes:
  assumes "\<forall>(nm, uri)\<in>set lines. length nm \<le> 32 \<and> length uri \<le> 200" "i < length lines"
  shows "ledger_name decode (ledger_bytes lines) i = decode (padded 32 (fst (lines ! i)))"
    and "ledger_uri decode (ledger_bytes lines) i = decode (padded 200 (snd (lines ! i)))"
proof -
  obtain nm uri where l: "lines ! i = (nm, uri)" by (cases "lines ! i")
  with assms have len: "length nm \<le> 32" "length uri \<le> 200"
    using nth_mem[OF assms(2)] by auto
  show "ledger_name decode (ledger_bytes lines) i = decode (padded 32 (fst (lines ! i)))"
    unfolding ledger_name_def ledger_record_bytes[OF assms] l
    using len by (simp add: config_line_bytes_def u32le_def length_padded)
  show "ledger_uri decode (ledger_bytes lines) i = decode (padded 200 (snd (lines ! i)))"
    unfolding ledger_uri_def ledger_record_bytes[OF assms] l
    using len by (simp add: config_line_bytes_def u32le_def length_padded)
qed

lemma fromUTF8Array_padded:
  "s = [] \<or> last s \<noteq> CHR 0x00 \<Longrightarrow> fromUTF8Array (padded n s) = s"
proof -
  assume a: "s = [] \<or> last s \<noteq> CHR 0x00"
  have "dropWhile (\<lambda>b. b = CHR 0x00) (replicate m (CHR 0x00) @ rev s) = rev s" for m
    using a by (induction m) (auto simp: dropWhile_eq_self_iff hd_rev)
  then show ?thesis by (simp add: fromUTF8Array_def padded_def)
qed


lemma dotted_verify:
  "verify_action (ledger_with dotted_ledger) fromUTF8Array (Some dotted_cache) = Inr dotted_cache"
proof -
  have fit: "\<forall>(nm, uri)\<in>set [(''Item #0'', ''https://arweave-net/a'')].
               length nm \<le> 32 \<and> length uri \<le> 200" by simp
  have n: "ledger_name fromUTF8Array dotted_ledger 0 = ''Item #0''"
    unfolding dotted_ledger_def using ledger_fields_bytes(1)[OF fit, of 0 fromUTF8Array]
    by (simp add: fromUTF8Array_padded)
  have u: "ledger_uri fromUTF8Array dotted_ledger 0 = ''https://arweave-net/a''"
    unfolding dotted_ledger_def using ledger_fields_bytes(2)[OF fit, of 0 fromUTF8Array]
    by (simp add: fromUTF8Array_padded)
  have m1: "js_match ''Item #0'' (Some ''Item #0'') = Some True" by code_simp
  have m2: "js_match ''https://arweave-net/a'' (Some ''https://arweave.net/a'') = Some True"
    by code_simp
  have r: "reconciled fromUTF8Array dotted_ledger 0
             \<lparr>link = Some ''https://arweave.net/a'', name = Some ''Item #0'', onChain = True\<rparr>
           = \<lparr>link = Some ''https://arweave.net/a'', name = Some ''Item #0'', onChain = True\<rparr>"
    by (simp add: reconciled_def n u m1 m2)
  have p: "pattern_modelled (Some ''Item #0'')" "pattern_modelled (Some ''https://arweave.net/a'')"
    by code_simp+
  have "verify_loop fromUTF8Array dotted_ledger 0
          [(''0'', \<lparr>link = Some ''https://arweave.net/a'', name = Some ''Item #0'', onChain = True\<rparr>)]
        = Inr [(''0'', \<lparr>link = Some ''https://arweave.net/a'', name = Some ''Item #0'', onChain = True\<rparr>)]"
    using verify_item_modelled[of "\<lparr>link = Some ''https://arweave.net/a'', name = Some ''Item #0'', onChain = True\<rparr>"
             fromUTF8Array dotted_ledger 0] p r
    by simp
  then show ?thesis
    by (simp add: verify_action_def dotted_cache_def ledger_with_def)
qed

section \<open>The claims on registered records and on verification\<close>

text \<open>
  Claim C1, as the code has it. The item loop of the upload command and the verify
  command never turn a cache whose registered records all have a non-empty link into
  one that has a registered record without: the first writes records with
  \<open>onChain = False\<close>, the second only clears \<open>onChain\<close>. The batch phase marks every
  record of a confirmed micro-batch without looking at its link; it keeps the property
  when every record of the cache has a non-empty link as the phase starts, and then
  every record still has one as it ends.
\<close>

theorem registered_items_stay_linked:
  "(items_ok (items (cacheContent st)) \<longrightarrow>
      items_ok (items (cacheContent (final_state (upload_loop w env SIZE i images st)))))
   \<and> (all_linked (items (cacheContent st)) \<longrightarrow>
        all_linked (items (cacheContent (batch_phase w st)))
        \<and> items_ok (items (cacheContent (batch_phase w st))))
   \<and> (verify_action w decode (Some cachedContent) = Inr written
        \<and> json_items cachedContent = Some its \<and> items_ok its \<longrightarrow>
        (\<exists>its'. json_items written = Some its' \<and> items_ok its'))"
  using items_ok_upload_loop[of st w env SIZE i images]
        all_linked_batch_phase[of st w] all_linked_items_ok items_ok_verify_action
  by blast

theorem registered_items_stay_linked_witness:
  "items_ok (items (cacheContent empty_state))
   \<and> items_ok (items (cacheContent (final_state
         (upload_loop storage_echoes_files None 1 0 [''assets/0.png''] empty_state))))
   \<and> all_linked (items (cacheContent (state_of example_cache_3)))
   \<and> all_linked (items (cacheContent (batch_phase all_succeed (state_of example_cache_3))))
   \<and> items_ok (items (cacheContent (batch_phase all_succeed (state_of example_cache_3))))
   \<and> verify_action (ledger_with dotted_ledger) fromUTF8Array (Some dotted_cache)
       = Inr dotted_cache
   \<and> json_items dotted_cache
       = Some [(''0'', \<lparr>link = Some ''https://arweave.net/a'', name = Some ''Item #0'',
                        onChain = True\<rparr>)]
   \<and> items_ok [(''0'', \<lparr>link = Some ''https://arweave.net/a'', name = Some ''Item #0'',
                        onChain = True\<rparr>)]
   \<and> (\<exists>its'. json_items dotted_cache = Some its' \<and> items_ok its')"
proof -
  let ?its = "[(''0'', \<lparr>link = Some ''https://arweave.net/a'', name = Some ''Item #0'',
                        onChain = True\<rparr>)]"
  have h1: "items_ok (items (cacheContent empty_state))" by code_simp
  have h2: "all_linked (items (cacheContent (state_of example_cache_3)))" by code_simp
  have h3: "verify_action (ledger_with dotted_ledger) fromUTF8Array (Some dotted_cache)
              = Inr dotted_cache" by (rule dotted_verify)
  have h4: "json_items dotted_cache = Some ?its" by (simp add: dotted_cache_def)
  have h5: "items_ok ?its" by code_simp
  from registered_items_stay_linked[where st = empty_state and w = storage_echoes_files
         and env = None and SIZE = 1 and i = 0 and images = "[''assets/0.png'']"] h1
  have c1: "items_ok (items (cacheContent (final_state
         (upload_loop storage_echoes_files None 1 0 [''assets/0.png''] empty_state))))"
    by blast
  from registered_items_stay_linked[where st = "state_of example_cache_3" and w = all_succeed] h2
  have c2: "all_linked (items (cacheContent (batch_phase all_succeed (state_of example_cache_3))))
     \<and> items_ok (items (cacheContent (batch_phase all_succeed (state_of example_cache_3))))"
    by blast
  from registered_items_stay_linked[where w = "ledger_with dotted_ledger"
         and decode = fromUTF8Array and cachedContent = dotted_cache
         and written = dotted_cache and its = ?its] h3 h4 h5
  have c3: "\<exists>its'. json_items dotted_cache = Some its' \<and> items_ok its'" by blast
  from h1 h2 h3 h4 h5 c1 c2 c3 show ?thesis by blast
qed

text \<open>
  Claim C1 as stated fails. Starting with no cache file and one image, with a storage
  service that answers with no record named \<^verbatim>\<open>manifest.json\<close> and a ledger that confirms
  the batch, the upload command ends with the record of item \<open>0\<close> registered and
  without a link.
\<close>

theorem registered_without_link_counterexample:
  "map_of (items (cacheContent (final_state
       (upload_action storage_echoes_files DEVNET_CLUSTER_URL [''assets/0.png''] None)))) ''0''
     = Some \<lparr>link = None, name = Some ''Item'', onChain = True\<rparr>
   \<and> \<not> items_ok (items (cacheContent (final_state
       (upload_action storage_echoes_files DEVNET_CLUSTER_URL [''assets/0.png''] None))))"
  by code_simp







text \<open>
  Claim C9. The upload command takes a missing cache file for an empty document. The
  verify command does not: it leaves \<^verbatim>\<open>cachedContent\<close> undefined and raises a
  \<^verbatim>\<open>TypeError\<close> at \<^verbatim>\<open>cachedContent.program\<close>, whatever the ledger holds.
\<close>

theorem verify_raises_without_cache_file:
  "verify_action w decode None = Inl TypeError
   \<and> load_cache None = (\<lparr>program = \<lparr>uuid = None, config = None\<rparr>, items = []\<rparr>, [])"
  by (simp add: verify_action_def load_cache_def)

section \<open>The ordered item set\<close>


















end
